theory Spec2Isabelle
  imports Main
begin

section \<open>Python values and exceptions\<close>

text \<open>
  The values that cross the program's boundaries are decoded JSON: the downstream
  server's reply (\<^verbatim>\<open>response.json()\<close>), the payload sent to it, the tool catalog and the
  \<^verbatim>\<open>parameters\<close> dict of the tool endpoint. A dict is an association list in insertion
  order (a Python dict has distinct keys; lookup takes the first binding). A float is kept
  as its \<^verbatim>\<open>repr\<close> (the literal \<^verbatim>\<open>0.7\<close> is \<open>JFloat ''0.7''\<close>): the program never computes
  with one.
\<close>

datatype json =
    JNull
  | JBool bool
  | JInt int
  | JFloat string
  | JStr string
  | JArr "json list"
  | JObj "(string \<times> json) list"

text \<open>
  An exception is its class and \<^verbatim>\<open>str(e)\<close>. \<open>HTTPError\<close> stands for
  \<^verbatim>\<open>httpx.HTTPError\<close> and its subclasses (transport errors, timeouts,
  \<^verbatim>\<open>HTTPStatusError\<close>); every class below is a subclass of \<^verbatim>\<open>Exception\<close>. Texts
  that the interpreter or a library produces are written as CPython 3.10 prints them.
\<close>

datatype py_exception =
    HTTPError string
  | KeyError string
  | IndexError string
  | TypeError string
  | ValueError string
  | ValidationError string
  | SyntaxError string
  | ZeroDivisionError string
  | OtherException string

fun str_exc :: "py_exception \<Rightarrow> string" where
  "str_exc (HTTPError s) = s"
| "str_exc (KeyError s) = s"
| "str_exc (IndexError s) = s"
| "str_exc (TypeError s) = s"
| "str_exc (ValueError s) = s"
| "str_exc (ValidationError s) = s"
| "str_exc (SyntaxError s) = s"
| "str_exc (ZeroDivisionError s) = s"
| "str_exc (OtherException s) = s"

fun is_HTTPError :: "py_exception \<Rightarrow> bool" where
  "is_HTTPError (HTTPError s) = True"
| "is_HTTPError e = False"

definition quoted :: "string \<Rightarrow> string" where
  "quoted s = CHR 0x27 # s @ [CHR 0x27]"

fun type_name :: "json \<Rightarrow> string" where
  "type_name JNull = ''NoneType''"
| "type_name (JBool b) = ''bool''"
| "type_name (JInt i) = ''int''"
| "type_name (JFloat f) = ''float''"
| "type_name (JStr s) = ''str''"
| "type_name (JArr xs) = ''list''"
| "type_name (JObj kvs) = ''dict''"

text \<open>
  \<^verbatim>\<open>obj[key]\<close> for a string key, and \<^verbatim>\<open>obj[0]\<close>. A \<^verbatim>\<open>KeyError\<close> prints the
  \<^verbatim>\<open>repr\<close> of the key; the keys used are the literals of line 129, whose \<^verbatim>\<open>repr\<close> is
  the key in single quotes.
\<close>

fun getitem_str :: "json \<Rightarrow> string \<Rightarrow> py_exception + json" where
  "getitem_str (JObj kvs) k =
     (case map_of kvs k of
        None \<Rightarrow> Inl (KeyError (quoted k))
      | Some v \<Rightarrow> Inr v)"
| "getitem_str (JArr xs) k = Inl (TypeError ''list indices must be integers or slices, not str'')"
| "getitem_str (JStr s) k = Inl (TypeError ''string indices must be integers'')"
| "getitem_str v k = Inl (TypeError (quoted (type_name v) @ '' object is not subscriptable''))"

fun getitem_0 :: "json \<Rightarrow> py_exception + json" where
  "getitem_0 (JArr []) = Inl (IndexError ''list index out of range'')"
| "getitem_0 (JArr (x # xs)) = Inr x"
| "getitem_0 (JObj kvs) = Inl (KeyError ''0'')"
| "getitem_0 (JStr []) = Inl (IndexError ''string index out of range'')"
| "getitem_0 (JStr (c # cs)) = Inr (JStr [c])"
| "getitem_0 v = Inl (TypeError (quoted (type_name v) @ '' object is not subscriptable''))"

section \<open>Configuration, models and the tool catalog\<close>

definition LLM_SERVER_URL :: string where
  "LLM_SERVER_URL = ''http://localhost:8001/v1/chat/completions''"

definition DEFAULT_MODEL :: string where
  "DEFAULT_MODEL = ''gemma3-27b''"

record ChatMessage =
  role :: string
  content :: string

record ChatRequest =
  messages :: "ChatMessage list"
  conversationId :: string
  userId :: "string option"

record ChatResponse =
  message :: string
  toolsUsed :: "string list option"
  debug :: "(string \<times> json) list option"

definition TOOLS :: "json list" where
  "TOOLS =
     [JObj [(''name'', JStr ''get_current_datetime''),
            (''description'', JStr ''Returns the current date and time in ISO 8601 format''),
            (''parameters'', JObj [(''type'', JStr ''object''),
                                   (''properties'', JObj []),
                                   (''required'', JArr [])])],
      JObj [(''name'', JStr ''calculator''),
            (''description'', JStr ''Calculate mathematical expressions safely''),
            (''parameters'', JObj [(''type'', JStr ''object''),
                                   (''properties'', JObj [(''expression'',
                                       JObj [(''type'', JStr ''string''),
                                             (''description'', JStr ''Mathematical expression to evaluate'')])]),
                                   (''required'', JArr [JStr ''expression''])])]]"

text \<open>The HTTP error the framework turns into a response: \<^verbatim>\<open>HTTPException(status_code, detail)\<close>.\<close>

datatype HTTPException = HTTPException (status_code: nat) (detail: string)

section \<open>The downstream call\<close>

text \<open>
  The network is a parameter: what \<^verbatim>\<open>client.post(url, json=payload)\<close> does for a URL and a
  payload. It raises an \<^verbatim>\<open>httpx.HTTPError\<close> (connection failure, timeout) with a text, or
  returns a response. Of a response the program uses the status code, the text of the
  \<^verbatim>\<open>HTTPStatusError\<close> that \<^verbatim>\<open>raise_for_status()\<close> builds for it, and
  \<^verbatim>\<open>response.json()\<close>, which raises a \<^verbatim>\<open>ValueError\<close> (the text on the left) when the
  body is not JSON.
\<close>

record http_response =
  status :: nat
  status_error :: string
  json_body :: "string + json"

datatype post_result = PostRaises string | PostReturns http_response

type_synonym network = "string \<Rightarrow> json \<Rightarrow> post_result"

text \<open>\<^verbatim>\<open>httpx\<close>: a response is a success when its status is 2xx; any other status raises.\<close>

definition raise_for_status :: "http_response \<Rightarrow> py_exception + unit" where
  "raise_for_status r =
     (if 200 \<le> status r \<and> status r \<le> 299 then Inr ()
      else Inl (HTTPError (status_error r)))"

text \<open>The payload of lines 97 to 106, keys in insertion order.\<close>

definition payload_of :: "json list \<Rightarrow> bool \<Rightarrow> json" where
  "payload_of msgs include_tools =
     (let payload = [(''model'', JStr DEFAULT_MODEL),
                     (''messages'', JArr msgs),
                     (''temperature'', JFloat ''0.7''),
                     (''max_tokens'', JInt 512)]
      in JObj (if include_tools
               then payload @ [(''tools'', JArr TOOLS), (''tool_choice'', JStr ''auto'')]
               else payload))"

text \<open>
  \<open>call_llm_with_tools\<close> (lines 93 to 113). The first component of the result is the list of
  requests it posted, as (URL, payload) pairs; the second is the decoded reply or the exception
  that leaves the function. Printing and logging are left out.
\<close>

definition call_llm_with_tools ::
  "network \<Rightarrow> json list \<Rightarrow> bool \<Rightarrow> (string \<times> json) list \<times> (py_exception + json)" where
  "call_llm_with_tools net msgs include_tools =
     (let payload = payload_of msgs include_tools
      in ([(LLM_SERVER_URL, payload)],
          (case net LLM_SERVER_URL payload of
             PostRaises err \<Rightarrow> Inl (HTTPError err)
           | PostReturns response \<Rightarrow>
               (case raise_for_status response of
                  Inl e \<Rightarrow> Inl e
                | Inr u \<Rightarrow>
                    (case json_body response of
                       Inl err \<Rightarrow> Inl (ValueError err)
                     | Inr j \<Rightarrow> Inr j)))))"

section \<open>The chat endpoint\<close>

text \<open>Line 129: \<^verbatim>\<open>llm_response["choices"][0]["message"]["content"]\<close>.\<close>

definition extract_content :: "json \<Rightarrow> py_exception + json" where
  "extract_content llm_response =
     (case getitem_str llm_response ''choices'' of
        Inl e \<Rightarrow> Inl e
      | Inr choices \<Rightarrow>
          (case getitem_0 choices of
             Inl e \<Rightarrow> Inl e
           | Inr choice \<Rightarrow>
               (case getitem_str choice ''message'' of
                  Inl e \<Rightarrow> Inl e
                | Inr msg \<Rightarrow> getitem_str msg ''content'')))"

text \<open>
  Line 131 slices \<^verbatim>\<open>assistant_message[:100]\<close> inside the f-string, whatever the log level:
  a string or a list can be sliced, nothing else of JSON can.
\<close>

fun slice_prefix :: "json \<Rightarrow> py_exception + unit" where
  "slice_prefix (JStr s) = Inr ()"
| "slice_prefix (JArr xs) = Inr ()"
| "slice_prefix (JObj kvs) = Inl (TypeError (''unhashable type: '' @ quoted ''slice''))"
| "slice_prefix v = Inl (TypeError (quoted (type_name v) @ '' object is not subscriptable''))"

text \<open>
  \<^verbatim>\<open>ChatResponse(message=...)\<close>: the field is declared \<^verbatim>\<open>str\<close>. Of the values that pass
  the slice only a string validates.
\<close>

fun validate_message :: "json \<Rightarrow> py_exception + string" where
  "validate_message (JStr s) = Inr s"
| "validate_message v = Inl (ValidationError ''1 validation error for ChatResponse'')"

text \<open>Line 121: each message becomes a dict of its role and content, in order.\<close>

definition llm_messages :: "ChatRequest \<Rightarrow> json list" where
  "llm_messages request =
     map (\<lambda>msg. JObj [(''role'', JStr (role msg)), (''content'', JStr (content msg))])
       (messages request)"

text \<open>The body of the \<^verbatim>\<open>try\<close> block of \<open>chat\<close> (lines 120 to 137).\<close>

definition chat_try ::
  "network \<Rightarrow> ChatRequest \<Rightarrow> (string \<times> json) list \<times> (py_exception + ChatResponse)" where
  "chat_try net request =
     (let (sent, llm) = call_llm_with_tools net (llm_messages request) True
      in (sent,
          (case llm of
             Inl e \<Rightarrow> Inl e
           | Inr llm_response \<Rightarrow>
               (case extract_content llm_response of
                  Inl e \<Rightarrow> Inl e
                | Inr assistant_message \<Rightarrow>
                    (case slice_prefix assistant_message of
                       Inl e \<Rightarrow> Inl e
                     | Inr u \<Rightarrow>
                         (case validate_message assistant_message of
                            Inl e \<Rightarrow> Inl e
                          | Inr m \<Rightarrow>
                              Inr \<lparr>message = m,
                                   toolsUsed = None,
                                   debug = (if userId request = Some ''debug''
                                            then Some [(''model'', JStr DEFAULT_MODEL),
                                                       (''tools_available'', JInt (int (length TOOLS)))]
                                            else None)\<rparr>))))))"

text \<open>
  The two \<^verbatim>\<open>except\<close> clauses of \<open>chat\<close> (lines 139 to 144), in the order Python tries
  them: which clause catches an exception, and the \<open>HTTPException\<close> it raises.
\<close>

datatype except_clause = Except_HTTPError | Except_Exception

definition caught_by :: "py_exception \<Rightarrow> except_clause" where
  "caught_by e = (if is_HTTPError e then Except_HTTPError else Except_Exception)"

definition chat_except :: "py_exception \<Rightarrow> HTTPException" where
  "chat_except e =
     (case caught_by e of
        Except_HTTPError \<Rightarrow> HTTPException 500 (''LLM server error: '' @ str_exc e)
      | Except_Exception \<Rightarrow> HTTPException 500 (str_exc e))"

definition chat ::
  "network \<Rightarrow> ChatRequest \<Rightarrow> (string \<times> json) list \<times> (HTTPException + ChatResponse)" where
  "chat net request =
     (let (sent, r) = chat_try net request
      in (sent, (case r of Inl e \<Rightarrow> Inl (chat_except e) | Inr response \<Rightarrow> Inr response)))"

section \<open>The health endpoint\<close>

definition health :: "unit \<Rightarrow> (string \<times> json) list" where
  "health u = [(''status'', JStr ''healthy''),
               (''model'', JStr DEFAULT_MODEL),
               (''tools'', JInt (int (length TOOLS)))]"

section \<open>The tools\<close>

text \<open>
  What a tool returns: \<^verbatim>\<open>{"datetime": ...}\<close>, \<^verbatim>\<open>{"result": ...}\<close> or
  \<^verbatim>\<open>{"error": ...}\<close>. The value of an expression is an integer or another Python object
  (a float, a complex number, a tuple, \<^verbatim>\<open>Ellipsis\<close>), kept as its \<^verbatim>\<open>repr\<close>.
\<close>

datatype pyval = PInt int | PObject string

datatype tool_result = DatetimeDict string | ResultDict pyval | ErrorDict string

text \<open>
  The builtin \<^verbatim>\<open>eval\<close> on a string is a parameter of the model: it returns a value or
  raises an \<^verbatim>\<open>Exception\<close>.
\<close>

type_synonym eval_fn = "string \<Rightarrow> py_exception + pyval"

text \<open>
  \<open>get_current_datetime\<close> (lines 73 and 74); the clock's reading, in ISO format, is a
  parameter.
\<close>

definition get_current_datetime :: "string \<Rightarrow> py_exception + tool_result" where
  "get_current_datetime now = Inr (DatetimeDict now)"

definition allowed_chars :: "char set" where
  "allowed_chars = set ''0123456789+-*/()%. ''"

text \<open>
  \<^verbatim>\<open>c in allowed_chars\<close> for an element \<open>c\<close> of a list: a list or a dict cannot be hashed,
  and of the rest only a one-character string can be a member.
\<close>

fun in_allowed_chars :: "json \<Rightarrow> py_exception + bool" where
  "in_allowed_chars (JStr [c]) = Inr (c \<in> allowed_chars)"
| "in_allowed_chars (JArr xs) = Inl (TypeError (''unhashable type: '' @ quoted ''list''))"
| "in_allowed_chars (JObj kvs) = Inl (TypeError (''unhashable type: '' @ quoted ''dict''))"
| "in_allowed_chars v = Inr False"

text \<open>\<^verbatim>\<open>all(...)\<close> over the elements, left to right: it stops at the first that is false or raises.\<close>

fun all_in_allowed_chars :: "json list \<Rightarrow> py_exception + bool" where
  "all_in_allowed_chars [] = Inr True"
| "all_in_allowed_chars (x # xs) =
     (case in_allowed_chars x of
        Inl e \<Rightarrow> Inl e
      | Inr b \<Rightarrow> (if b then all_in_allowed_chars xs else Inr False))"

text \<open>
  Line 80, \<^verbatim>\<open>all(c in allowed_chars for c in expression)\<close>. The annotation \<^verbatim>\<open>str\<close> is not
  enforced: the argument is whatever the caller passes. A string is iterated by character, a
  list by element, a dict by key; anything else of JSON is not iterable.
\<close>

fun all_allowed :: "json \<Rightarrow> py_exception + bool" where
  "all_allowed (JStr s) = Inr (list_all (\<lambda>c. c \<in> allowed_chars) s)"
| "all_allowed (JArr xs) = all_in_allowed_chars xs"
| "all_allowed (JObj kvs) = all_in_allowed_chars (map (\<lambda>kv. JStr (fst kv)) kvs)"
| "all_allowed v = Inl (TypeError (quoted (type_name v) @ '' object is not iterable''))"

fun eval_builtin :: "eval_fn \<Rightarrow> json \<Rightarrow> py_exception + pyval" where
  "eval_builtin ev (JStr s) = ev s"
| "eval_builtin ev v = Inl (TypeError ''eval() arg 1 must be a string, bytes or code object'')"

text \<open>The \<^verbatim>\<open>try\<close> block of \<open>calculator\<close> (lines 78 to 84).\<close>

definition calculator_try :: "eval_fn \<Rightarrow> json \<Rightarrow> py_exception + tool_result" where
  "calculator_try ev expression =
     (case all_allowed expression of
        Inl e \<Rightarrow> Inl e
      | Inr ok \<Rightarrow>
          (if ok
           then (case eval_builtin ev expression of
                   Inl e \<Rightarrow> Inl e
                 | Inr result \<Rightarrow> Inr (ResultDict result))
           else Inr (ErrorDict ''Invalid expression'')))"

text \<open>
  \<open>calculator\<close> (lines 76 to 86): \<^verbatim>\<open>except Exception as e\<close> turns what the block raises
  into \<^verbatim>\<open>{"error": str(e)}\<close>. The result type keeps a left side, as that of any Python
  function does.
\<close>

definition calculator :: "eval_fn \<Rightarrow> json \<Rightarrow> py_exception + tool_result" where
  "calculator ev expression =
     (case calculator_try ev expression of
        Inl e \<Rightarrow> Inr (ErrorDict (str_exc e))
      | Inr r \<Rightarrow> Inr r)"

datatype tool_function = Fn_get_current_datetime | Fn_calculator

definition TOOL_FUNCTIONS :: "(string \<times> tool_function) list" where
  "TOOL_FUNCTIONS =
     [(''get_current_datetime'', Fn_get_current_datetime),
      (''calculator'', Fn_calculator)]"

text \<open>
  \<^verbatim>\<open>f(**parameters)\<close>: Python binds the keywords before it enters the function. A keyword
  that is no parameter of \<open>f\<close> raises a \<^verbatim>\<open>TypeError\<close> (the first such key, in the dict's
  order), then a parameter left without a value does.
\<close>

fun call_with_kwargs ::
  "eval_fn \<Rightarrow> string \<Rightarrow> tool_function \<Rightarrow> (string \<times> json) list \<Rightarrow> py_exception + tool_result" where
  "call_with_kwargs ev now Fn_get_current_datetime parameters =
     (case parameters of
        [] \<Rightarrow> get_current_datetime now
      | kv # rest \<Rightarrow>
          Inl (TypeError (''get_current_datetime() got an unexpected keyword argument ''
                          @ quoted (fst kv))))"
| "call_with_kwargs ev now Fn_calculator parameters =
     (case filter (\<lambda>kv. fst kv \<noteq> ''expression'') parameters of
        kv # rest \<Rightarrow>
          Inl (TypeError (''calculator() got an unexpected keyword argument '' @ quoted (fst kv)))
      | [] \<Rightarrow>
          (case map_of parameters ''expression'' of
             None \<Rightarrow>
               Inl (TypeError (''calculator() missing 1 required positional argument: ''
                               @ quoted ''expression''))
           | Some v \<Rightarrow> calculator ev v))"

record tool_response =
  tool :: string
  result :: tool_result

text \<open>\<open>execute_tool\<close> (lines 153 to 162).\<close>

definition execute_tool ::
  "eval_fn \<Rightarrow> string \<Rightarrow> string \<Rightarrow> (string \<times> json) list \<Rightarrow> HTTPException + tool_response" where
  "execute_tool ev now name parameters =
     (case map_of TOOL_FUNCTIONS name of
        None \<Rightarrow> Inl (HTTPException 404 (''Tool '' @ name @ '' not found''))
      | Some f \<Rightarrow>
          (case call_with_kwargs ev now f parameters of
             Inl e \<Rightarrow> Inl (HTTPException 400 (str_exc e))
           | Inr r \<Rightarrow> Inr \<lparr>tool = name, result = r\<rparr>))"

section \<open>A reference semantics for \<^verbatim>\<open>eval\<close> on integer expressions\<close>

text \<open>
  What Python's \<^verbatim>\<open>eval\<close> does on the strings of integer arithmetic: decimal integer
  literals, the operators \<^verbatim>\<open>+ - * / // % **\<close>, unary sign, parentheses and spaces. A
  result is \<open>Done\<close>; \<open>Invalid\<close> is a \<^verbatim>\<open>SyntaxError\<close>; \<open>Outside\<close> says that the string
  leaves the fragment (a float, a call, a tuple, \<^verbatim>\<open>Ellipsis\<close>, a character outside the
  alphabet, or the fuel of the parser used up), where this semantics says nothing.
\<close>

datatype 'a parsed = Done 'a | Invalid | Outside

datatype token =
    NUMBER int
  | PLUS | MINUS | STAR | DOUBLESTAR | SLASH | DOUBLESLASH | PERCENT
  | LPAR | RPAR

definition is_digit :: "char \<Rightarrow> bool" where
  "is_digit c = (c \<in> set ''0123456789'')"

definition digit_value :: "char \<Rightarrow> int" where
  "digit_value c = int (of_char c) - 48"

text \<open>
  A run of digits is one literal; a literal of more than one digit that starts with
  \<^verbatim>\<open>0\<close> is a syntax error unless it is all zeros.
\<close>

definition number_token :: "string \<Rightarrow> token parsed" where
  "number_token ds =
     (if length ds > 1 \<and> hd ds = CHR ''0'' \<and> \<not> list_all (\<lambda>c. c = CHR ''0'') ds
      then Invalid
      else Done (NUMBER (foldl (\<lambda>a c. 10 * a + digit_value c) 0 ds)))"

text \<open>Putting a token before the rest: \<open>Outside\<close> wins over \<open>Invalid\<close>.\<close>

fun push :: "token parsed \<Rightarrow> token list parsed \<Rightarrow> token list parsed" where
  "push t Outside = Outside"
| "push Outside r = Outside"
| "push t Invalid = Invalid"
| "push Invalid r = Invalid"
| "push (Done t) (Done ts) = Done (t # ts)"

definition flush :: "string \<Rightarrow> token list parsed \<Rightarrow> token list parsed" where
  "flush ds r = (if ds = [] then r else push (number_token ds) r)"

text \<open>The tokenizer; \<open>ds\<close> holds the digits of the literal being read.\<close>

fun tokenize :: "string \<Rightarrow> string \<Rightarrow> token list parsed" where
  "tokenize ds [] = flush ds (Done [])"
| "tokenize ds (c # cs) =
     (if is_digit c then tokenize (ds @ [c]) cs
      else flush ds
        (if c = CHR '' '' then tokenize [] cs
         else if c = CHR ''+'' then push (Done PLUS) (tokenize [] cs)
         else if c = CHR ''-'' then push (Done MINUS) (tokenize [] cs)
         else if c = CHR ''%'' then push (Done PERCENT) (tokenize [] cs)
         else if c = CHR ''('' then push (Done LPAR) (tokenize [] cs)
         else if c = CHR '')'' then push (Done RPAR) (tokenize [] cs)
         else if c = CHR ''*'' then
           (case cs of
              [] \<Rightarrow> push (Done STAR) (tokenize [] cs)
            | c' # cs' \<Rightarrow>
                (if c' = CHR ''*'' then push (Done DOUBLESTAR) (tokenize [] cs')
                 else push (Done STAR) (tokenize [] cs)))
         else if c = CHR ''/'' then
           (case cs of
              [] \<Rightarrow> push (Done SLASH) (tokenize [] cs)
            | c' # cs' \<Rightarrow>
                (if c' = CHR ''/'' then push (Done DOUBLESLASH) (tokenize [] cs')
                 else push (Done SLASH) (tokenize [] cs)))
         else Outside))"

datatype binop = Add | Sub | Mult | Div | FloorDiv | Mod | Pow_op

datatype unop = UAdd | USub

datatype expr = Constant int | BinOp expr binop expr | UnaryOp unop expr

text \<open>Sequencing of parsers, and the tests on the next token.\<close>

definition and_then :: "'a parsed \<Rightarrow> ('a \<Rightarrow> 'b parsed) \<Rightarrow> 'b parsed" where
  "and_then r f = (case r of Done x \<Rightarrow> f x | Invalid \<Rightarrow> Invalid | Outside \<Rightarrow> Outside)"

definition next_is :: "token \<Rightarrow> token list \<Rightarrow> bool" where
  "next_is t ts = (case ts of [] \<Rightarrow> False | t' # rest \<Rightarrow> t' = t)"

definition sum_op :: "token \<Rightarrow> binop option" where
  "sum_op t = (if t = PLUS then Some Add else if t = MINUS then Some Sub else None)"

definition term_op :: "token \<Rightarrow> binop option" where
  "term_op t =
     (if t = STAR then Some Mult
      else if t = SLASH then Some Div
      else if t = DOUBLESLASH then Some FloorDiv
      else if t = PERCENT then Some Mod
      else None)"

definition sign_op :: "token \<Rightarrow> unop option" where
  "sign_op t = (if t = PLUS then Some UAdd else if t = MINUS then Some USub else None)"

text \<open>
  The parser follows the rules of Python's grammar that the alphabet can reach:
  \<^verbatim>\<open>sum: term (('+'|'-') term)*\<close>,
  \<^verbatim>\<open>term: factor (('*'|'/'|'//'|'%') factor)*\<close>,
  \<^verbatim>\<open>factor: ('+'|'-') factor | power\<close>,
  \<^verbatim>\<open>power: primary ['**' factor]\<close>,
  \<^verbatim>\<open>atom: NUMBER | '(' sum ')'\<close>.
  An atom followed by \<^verbatim>\<open>(\<close> is a call and \<^verbatim>\<open>()\<close> a tuple: both are \<open>Outside\<close>. Every
  call of the parser spends one unit of fuel.
\<close>

text \<open>
  The rule being parsed; the rest of a sum or of a term carries its left operand.
\<close>

datatype rule = Sum | SumRest expr | Term | TermRest expr | Factor | Power | Atom

fun parse :: "nat \<Rightarrow> rule \<Rightarrow> token list \<Rightarrow> (expr \<times> token list) parsed" where
  "parse 0 r ts = Outside"
| "parse (Suc n) Sum ts =
     and_then (parse n Term ts) (\<lambda>p. parse n (SumRest (fst p)) (snd p))"
| "parse (Suc n) (SumRest left) ts =
     (case ts of
        [] \<Rightarrow> Done (left, ts)
      | t # ts' \<Rightarrow>
          (case sum_op t of
             None \<Rightarrow> Done (left, ts)
           | Some op \<Rightarrow>
               and_then (parse n Term ts') (\<lambda>p. parse n (SumRest (BinOp left op (fst p))) (snd p))))"
| "parse (Suc n) Term ts =
     and_then (parse n Factor ts) (\<lambda>p. parse n (TermRest (fst p)) (snd p))"
| "parse (Suc n) (TermRest left) ts =
     (case ts of
        [] \<Rightarrow> Done (left, ts)
      | t # ts' \<Rightarrow>
          (case term_op t of
             None \<Rightarrow> Done (left, ts)
           | Some op \<Rightarrow>
               and_then (parse n Factor ts') (\<lambda>p. parse n (TermRest (BinOp left op (fst p))) (snd p))))"
| "parse (Suc n) Factor ts =
     (case ts of
        [] \<Rightarrow> parse n Power ts
      | t # ts' \<Rightarrow>
          (case sign_op t of
             None \<Rightarrow> parse n Power ts
           | Some op \<Rightarrow>
               and_then (parse n Factor ts') (\<lambda>p. Done (UnaryOp op (fst p), snd p))))"
| "parse (Suc n) Power ts =
     and_then (parse n Atom ts)
       (\<lambda>p. if next_is DOUBLESTAR (snd p)
            then and_then (parse n Factor (tl (snd p)))
                   (\<lambda>q. Done (BinOp (fst p) Pow_op (fst q), snd q))
            else Done p)"
| "parse (Suc n) Atom ts =
     (case ts of
        [] \<Rightarrow> Invalid
      | t # ts' \<Rightarrow>
          (case t of
             NUMBER i \<Rightarrow> (if next_is LPAR ts' then Outside else Done (Constant i, ts'))
           | LPAR \<Rightarrow>
               (if next_is RPAR ts' then Outside
                else and_then (parse n Sum ts')
                       (\<lambda>p. if next_is RPAR (snd p)
                            then (if next_is LPAR (tl (snd p)) then Outside
                                  else Done (fst p, tl (snd p)))
                            else Invalid))
           | _ \<Rightarrow> Invalid))"

text \<open>
  Integer arithmetic as Python has it: \<^verbatim>\<open>//\<close> and \<^verbatim>\<open>%\<close> round to the floor (as \<open>div\<close> and
  \<open>mod\<close> on \<open>int\<close> do) and raise on a zero divisor; \<^verbatim>\<open>/\<close> raises on a zero divisor and
  gives a float otherwise; \<^verbatim>\<open>**\<close> with a negative exponent raises on base zero and gives a
  float otherwise. Of an exception the semantics gives the class only: its text differs
  from one interpreter to the next. A power whose base is beyond \<open>10 ^ 100\<close> in magnitude or
  whose exponent is beyond 1000 is \<open>Outside\<close>, so that no value outgrows an interpreter's
  memory.
\<close>

datatype raised = Raised_SyntaxError | Raised_ZeroDivisionError

fun apply_binop :: "binop \<Rightarrow> int \<Rightarrow> int \<Rightarrow> (raised + int) parsed" where
  "apply_binop Add a b = Done (Inr (a + b))"
| "apply_binop Sub a b = Done (Inr (a - b))"
| "apply_binop Mult a b = Done (Inr (a * b))"
| "apply_binop Div a b =
     (if b = 0 then Done (Inl Raised_ZeroDivisionError) else Outside)"
| "apply_binop FloorDiv a b =
     (if b = 0 then Done (Inl Raised_ZeroDivisionError) else Done (Inr (a div b)))"
| "apply_binop Mod a b =
     (if b = 0 then Done (Inl Raised_ZeroDivisionError) else Done (Inr (a mod b)))"
| "apply_binop Pow_op a b =
     (if 0 \<le> b
      then (if b \<le> 1000 \<and> abs a \<le> 10 ^ 100 then Done (Inr (a ^ nat b)) else Outside)
      else if a = 0 then Done (Inl Raised_ZeroDivisionError)
      else Outside)"

text \<open>Evaluation, left operand first; an exception ends it.\<close>

fun eval_expr :: "expr \<Rightarrow> (raised + int) parsed" where
  "eval_expr (Constant i) = Done (Inr i)"
| "eval_expr (UnaryOp op e) =
     (case eval_expr e of
        Done (Inr v) \<Rightarrow> Done (Inr (case op of UAdd \<Rightarrow> v | USub \<Rightarrow> - v))
      | r \<Rightarrow> r)"
| "eval_expr (BinOp l op r) =
     (case eval_expr l of
        Done (Inr a) \<Rightarrow>
          (case eval_expr r of
             Done (Inr b) \<Rightarrow> apply_binop op a b
           | r' \<Rightarrow> r')
      | l' \<Rightarrow> l')"

text \<open>
  \<open>py_eval\<close>: compile the whole string, then evaluate. The result is the integer value or
  the class of the exception raised, and \<open>None\<close> where the semantics says nothing. It says
  nothing of a string of more than 100 characters, which keeps literals and nesting within
  every interpreter's limits.
\<close>

definition py_eval :: "string \<Rightarrow> (raised + int) option" where
  "py_eval s =
     (if length s > 100 then None
      else (case tokenize [] s of
              Outside \<Rightarrow> None
            | Invalid \<Rightarrow> Some (Inl Raised_SyntaxError)
            | Done ts \<Rightarrow>
                (case parse (8 * length ts + 8) Sum ts of
                   Outside \<Rightarrow> None
                 | Invalid \<Rightarrow> Some (Inl Raised_SyntaxError)
                 | Done (e, rest) \<Rightarrow>
                     (if rest \<noteq> [] then Some (Inl Raised_SyntaxError)
                      else (case eval_expr e of
                              Outside \<Rightarrow> None
                            | Invalid \<Rightarrow> None
                            | Done r \<Rightarrow> Some r)))))"

text \<open>
  What \<^verbatim>\<open>eval\<close> did agrees with the reference semantics: the same integer, or an exception
  of the class given, with any text.
\<close>

fun agrees :: "py_exception + pyval \<Rightarrow> raised + int \<Rightarrow> bool" where
  "agrees (Inr (PInt v)) (Inr w) = (v = w)"
| "agrees (Inl (SyntaxError d)) (Inl Raised_SyntaxError) = True"
| "agrees (Inl (ZeroDivisionError d)) (Inl Raised_ZeroDivisionError) = True"
| "agrees r q = False"

text \<open>An \<^verbatim>\<open>eval\<close> that does what the reference semantics says, wherever it says something.\<close>

definition python_eval :: "eval_fn \<Rightarrow> bool" where
  "python_eval ev = (\<forall>s q. py_eval s = Some q \<longrightarrow> agrees (ev s) q)"

text \<open>
  One such \<^verbatim>\<open>eval\<close>, for the examples: it follows the reference semantics, with a text of
  its own for each exception, and raises where the semantics says nothing.
\<close>

definition reference_eval :: eval_fn where
  "reference_eval s =
     (case py_eval s of
        Some (Inr v) \<Rightarrow> Inr (PInt v)
      | Some (Inl Raised_SyntaxError) \<Rightarrow> Inl (SyntaxError ''invalid syntax'')
      | Some (Inl Raised_ZeroDivisionError) \<Rightarrow> Inl (ZeroDivisionError ''division by zero'')
      | None \<Rightarrow> Inl (OtherException ''outside the reference semantics''))"

text \<open>A downstream server that gives the same result to every request, for the examples.\<close>

definition constant_network :: "post_result \<Rightarrow> network" where
  "constant_network r url payload = r"

section \<open>The chat endpoint: what it sends and what it returns\<close>


text \<open>
  Claim C1. When the downstream call succeeds (the post returns a response with a 2xx status
  whose body decodes to a JSON object) and the reply's \<open>choices\<close> is a list whose first
  element is an object with a \<open>message\<close> object whose \<open>content\<close> is the string \<open>text\<close>,
  \<open>chat\<close> returns a \<open>ChatResponse\<close> whose \<open>message\<close> is exactly \<open>text\<close> and whose
  \<open>toolsUsed\<close> is \<open>None\<close>, for every request and whatever the other choices are.
\<close>

theorem chat_returns_content:
  assumes "net LLM_SERVER_URL (payload_of (llm_messages request) True) = PostReturns response"
    and "200 \<le> status response" and "status response \<le> 299"
    and "json_body response = Inr (JObj reply)"
    and "map_of reply ''choices'' = Some (JArr (JObj choice # others))"
    and "map_of choice ''message'' = Some (JObj msg)"
    and "map_of msg ''content'' = Some (JStr text)"
  shows "\<exists>d. snd (chat net request) = Inr \<lparr>message = text, toolsUsed = None, debug = d\<rparr>"
proof -
  have found: "extract_content (JObj reply) = Inr (JStr text)"
    using assms(5-7) by (simp add: extract_content_def)
  with assms(1-4) show ?thesis
    by (simp add: chat_def chat_try_def call_llm_with_tools_def Let_def raise_for_status_def)
qed

theorem chat_returns_content_witness:
  "\<exists>d. snd (chat
         (constant_network (PostReturns \<lparr>status = 200, status_error = [],
            json_body = Inr (JObj [(''id'', JStr ''r1''),
              (''choices'',
               JArr [JObj [(''index'', JInt 0),
                           (''message'', JObj [(''role'', JStr ''assistant''),
                                               (''content'', JStr ''Hello!'')])],
                     JObj [(''index'', JInt 1),
                           (''message'', JObj [(''role'', JStr ''assistant''),
                                               (''content'', JStr ''Goodbye!'')])]])])\<rparr>))
         \<lparr>messages = [\<lparr>role = ''user'', content = ''Hi''\<rparr>], conversationId = ''c1'',
          userId = None\<rparr>)
   = Inr \<lparr>message = ''Hello!'', toolsUsed = None, debug = d\<rparr>"
proof -
  let ?msg = "[(''role'', JStr ''assistant''), (''content'', JStr ''Hello!'')]"
  let ?choice = "[(''index'', JInt 0), (''message'', JObj ?msg)]"
  let ?others = "[JObj [(''index'', JInt 1),
      (''message'', JObj [(''role'', JStr ''assistant''), (''content'', JStr ''Goodbye!'')])]]"
  let ?reply = "[(''id'', JStr ''r1''), (''choices'', JArr (JObj ?choice # ?others))]"
  let ?response = "\<lparr>status = 200, status_error = [], json_body = Inr (JObj ?reply)\<rparr>"
  let ?request = "\<lparr>messages = [\<lparr>role = ''user'', content = ''Hi''\<rparr>], conversationId = ''c1'',
      userId = None\<rparr>"
  have posted: "constant_network (PostReturns ?response) LLM_SERVER_URL
      (payload_of (llm_messages ?request) True) = PostReturns ?response"
    by (simp add: constant_network_def)
  have lower: "200 \<le> status ?response" and upper: "status ?response \<le> 299"
    and body: "json_body ?response = Inr (JObj ?reply)"
    by simp_all
  have choices: "map_of ?reply ''choices'' = Some (JArr (JObj ?choice # ?others))"
    and msg: "map_of ?choice ''message'' = Some (JObj ?msg)"
    and found: "map_of ?msg ''content'' = Some (JStr ''Hello!'')"
    by simp_all
  show ?thesis
    by (rule chat_returns_content [of "constant_network (PostReturns ?response)" ?request
          ?response ?reply ?choice ?others ?msg "''Hello!''",
          OF posted lower upper body choices msg found])
qed

text \<open>
  Claim C2. Whenever \<open>chat\<close> returns a response, its \<open>debug\<close> field is the object with
  \<open>model\<close> the configured model and \<open>tools_available\<close> 2 if the request's \<open>userId\<close> is exactly
  the string \<open>debug\<close>, and is absent for every other \<open>userId\<close>, an absent one included.
\<close>

theorem chat_debug_iff:
  assumes "snd (chat net request) = Inr r"
  shows "debug r =
           (if userId request = Some ''debug''
            then Some [(''model'', JStr DEFAULT_MODEL), (''tools_available'', JInt 2)]
            else None)"
  using assms
  by (auto simp: chat_def chat_try_def call_llm_with_tools_def Let_def TOOLS_def
      split: sum.splits post_result.splits prod.splits)

theorem chat_debug_iff_witness:
  "snd (chat
         (constant_network (PostReturns \<lparr>status = 200, status_error = [],
            json_body = Inr (JObj [(''choices'',
              JArr [JObj [(''message'', JObj [(''content'', JStr ''ok'')])]])])\<rparr>))
         \<lparr>messages = [], conversationId = ''c2'', userId = Some ''debug''\<rparr>)
   = Inr \<lparr>message = ''ok'', toolsUsed = None,
          debug = Some [(''model'', JStr ''gemma3-27b''), (''tools_available'', JInt 2)]\<rparr>
   \<and> snd (chat
         (constant_network (PostReturns \<lparr>status = 200, status_error = [],
            json_body = Inr (JObj [(''choices'',
              JArr [JObj [(''message'', JObj [(''content'', JStr ''ok'')])]])])\<rparr>))
         \<lparr>messages = [], conversationId = ''c2'', userId = Some ''Debug''\<rparr>)
   = Inr \<lparr>message = ''ok'', toolsUsed = None, debug = None\<rparr>"
proof -
  let ?net = "constant_network (PostReturns \<lparr>status = 200, status_error = [],
      json_body = Inr (JObj [(''choices'',
        JArr [JObj [(''message'', JObj [(''content'', JStr ''ok'')])]])])\<rparr>)"
  let ?lower = "\<lparr>messages = [], conversationId = ''c2'', userId = Some ''debug''\<rparr>"
  let ?upper = "\<lparr>messages = [], conversationId = ''c2'', userId = Some ''Debug''\<rparr>"
  obtain r1 where r1: "snd (chat ?net ?lower) = Inr r1"
    and m1: "message r1 = ''ok''" and t1: "toolsUsed r1 = None"
    by (simp add: chat_def chat_try_def call_llm_with_tools_def raise_for_status_def
        constant_network_def extract_content_def)
  obtain r2 where r2: "snd (chat ?net ?upper) = Inr r2"
    and m2: "message r2 = ''ok''" and t2: "toolsUsed r2 = None"
    by (simp add: chat_def chat_try_def call_llm_with_tools_def raise_for_status_def
        constant_network_def extract_content_def)
  from chat_debug_iff [of ?net ?lower r1, OF r1]
  have d1: "debug r1 = Some [(''model'', JStr ''gemma3-27b''), (''tools_available'', JInt 2)]"
    by (simp add: DEFAULT_MODEL_def)
  from chat_debug_iff [of ?net ?upper r2, OF r2] have d2: "debug r2 = None"
    by simp
  from m1 t1 d1 have "r1 = \<lparr>message = ''ok'', toolsUsed = None,
      debug = Some [(''model'', JStr ''gemma3-27b''), (''tools_available'', JInt 2)]\<rparr>"
    by (cases r1) simp
  moreover from m2 t2 d2 have "r2 = \<lparr>message = ''ok'', toolsUsed = None, debug = None\<rparr>"
    by (cases r2) simp
  ultimately show ?thesis using r1 r2 by simp
qed

text \<open>
  Claim C5. When the outbound call fails at the transport or HTTP level (the post raises an
  \<^verbatim>\<open>httpx.HTTPError\<close> with text \<open>err\<close>, or returns a response whose status is not 2xx, for
  which \<^verbatim>\<open>raise_for_status\<close> raises one with text \<open>err\<close>), the exception is caught by the
  \<^verbatim>\<open>except httpx.HTTPError\<close> clause and \<open>chat\<close> fails with a 500 error whose detail is
  \<^verbatim>\<open>LLM server error: \<close> followed by \<open>err\<close>.
\<close>

theorem chat_downstream_unavailable:
  assumes "net LLM_SERVER_URL (payload_of (llm_messages request) True) = PostRaises err
         \<or> (\<exists>response.
               net LLM_SERVER_URL (payload_of (llm_messages request) True) = PostReturns response
               \<and> (status response < 200 \<or> 299 < status response)
               \<and> status_error response = err)"
  shows "snd (chat_try net request) = Inl (HTTPError err)
       \<and> caught_by (HTTPError err) = Except_HTTPError
       \<and> snd (chat net request) = Inl (HTTPException 500 (''LLM server error: '' @ err))"
  using assms
  by (auto simp: chat_def chat_try_def call_llm_with_tools_def Let_def raise_for_status_def
      chat_except_def caught_by_def)

theorem chat_downstream_unavailable_witness:
  "snd (chat
         (constant_network (PostReturns \<lparr>status = 500,
            status_error = ''Server error 500 Internal Server Error'',
            json_body = Inl ''Expecting value''\<rparr>))
         \<lparr>messages = [\<lparr>role = ''user'', content = ''Hi''\<rparr>], conversationId = ''c5'',
          userId = None\<rparr>)
   = Inl (HTTPException 500 ''LLM server error: Server error 500 Internal Server Error'')
   \<and> snd (chat
         (constant_network (PostRaises ''All connection attempts failed''))
         \<lparr>messages = [\<lparr>role = ''user'', content = ''Hi''\<rparr>], conversationId = ''c5'',
          userId = None\<rparr>)
   = Inl (HTTPException 500 ''LLM server error: All connection attempts failed'')"
proof -
  let ?response = "\<lparr>status = 500, status_error = ''Server error 500 Internal Server Error'',
      json_body = Inl ''Expecting value''\<rparr>"
  let ?request = "\<lparr>messages = [\<lparr>role = ''user'', content = ''Hi''\<rparr>], conversationId = ''c5'',
      userId = None\<rparr>"
  have status_500: "\<exists>response.
      constant_network (PostReturns ?response) LLM_SERVER_URL
        (payload_of (llm_messages ?request) True) = PostReturns response
      \<and> (status response < 200 \<or> 299 < status response)
      \<and> status_error response = ''Server error 500 Internal Server Error''"
    by (simp add: constant_network_def)
  have refused: "constant_network (PostRaises ''All connection attempts failed'') LLM_SERVER_URL
      (payload_of (llm_messages ?request) True) = PostRaises ''All connection attempts failed''"
    by (simp add: constant_network_def)
  from chat_downstream_unavailable [of "constant_network (PostReturns ?response)" ?request
      "''Server error 500 Internal Server Error''"] status_500
  have a: "snd (chat (constant_network (PostReturns ?response)) ?request)
      = Inl (HTTPException 500 ''LLM server error: Server error 500 Internal Server Error'')"
    by simp
  from chat_downstream_unavailable [of "constant_network (PostRaises ''All connection attempts failed'')"
      ?request "''All connection attempts failed''"] refused
  have b: "snd (chat (constant_network (PostRaises ''All connection attempts failed'')) ?request)
      = Inl (HTTPException 500 ''LLM server error: All connection attempts failed'')"
    by simp
  from a b show ?thesis by simp
qed




text \<open>
  Claim C7. For every request and whatever the downstream does, \<open>chat\<close> posts exactly one
  request, to the configured URL, and its payload is the configured model, the request's
  messages each reduced to its role and content in the order given, temperature 0.7,
  max_tokens 512, the whole catalog of two tools and tool_choice \<open>auto\<close>.
\<close>

theorem chat_payload:
  "fst (chat net request) =
     [(LLM_SERVER_URL,
       JObj [(''model'', JStr DEFAULT_MODEL),
             (''messages'',
              JArr (map (\<lambda>msg. JObj [(''role'', JStr (role msg)),
                                     (''content'', JStr (content msg))])
                     (messages request))),
             (''temperature'', JFloat ''0.7''),
             (''max_tokens'', JInt 512),
             (''tools'', JArr TOOLS),
             (''tool_choice'', JStr ''auto'')])]
   \<and> length TOOLS = 2"
  by (simp add: chat_def chat_try_def call_llm_with_tools_def payload_of_def llm_messages_def
      Let_def TOOLS_def split: prod.splits)

section \<open>The health endpoint and the catalog\<close>

text \<open>
  Claim C8. \<open>health\<close> returns the status \<open>healthy\<close>, the configured model and the tool count
  2. It takes no input and reads no state, so every call returns this value.
\<close>

theorem health_fixed:
  "health () =
     [(''status'', JStr ''healthy''), (''model'', JStr DEFAULT_MODEL), (''tools'', JInt 2)]"
  by (simp add: health_def TOOLS_def)

text \<open>
  Claim C9. The names of the catalog \<open>TOOLS\<close> are pairwise distinct, the keys of
  \<open>TOOL_FUNCTIONS\<close> are too, and the two sets of names are equal. Both are constants of the
  program: no operation takes them as state or returns them changed.
\<close>

theorem catalog_matches_table:
  "distinct (map (\<lambda>t. getitem_str t ''name'') TOOLS)
   \<and> distinct (map fst TOOL_FUNCTIONS)
   \<and> set (map (\<lambda>t. getitem_str t ''name'') TOOLS)
       = set (map (\<lambda>kv. Inr (JStr (fst kv))) TOOL_FUNCTIONS)"
  by (simp add: TOOLS_def TOOL_FUNCTIONS_def insert_commute)

section \<open>The calculator\<close>

lemma py_eval_2_plus_2: "py_eval ''2+2'' = Some (Inr 4)"
  by code_simp

lemma py_eval_10_div_0: "py_eval ''10/0'' = Some (Inl Raised_ZeroDivisionError)"
  by code_simp

lemma py_eval_2_plus: "py_eval ''2+'' = Some (Inl Raised_SyntaxError)"
  by code_simp

lemma py_eval_2_pow_3: "py_eval ''2**3'' = Some (Inr 8)"
  by code_simp

lemma py_eval_7_floordiv_2: "py_eval ''7//2'' = Some (Inr 3)"
  by code_simp

lemma py_eval_empty: "py_eval [] = Some (Inl Raised_SyntaxError)"
  by code_simp

lemma python_eval_value:
  assumes "python_eval ev" and "py_eval s = Some (Inr v)"
  shows "ev s = Inr (PInt v)"
proof -
  from assms have "agrees (ev s) (Inr v)"
    by (simp add: python_eval_def)
  then show ?thesis
    by (cases "(ev s, (Inr v :: raised + int))" rule: agrees.cases) auto
qed

lemma python_eval_syntax_error:
  assumes "python_eval ev" and "py_eval s = Some (Inl Raised_SyntaxError)"
  shows "\<exists>d. ev s = Inl (SyntaxError d)"
proof -
  from assms have "agrees (ev s) (Inl Raised_SyntaxError)"
    by (simp add: python_eval_def)
  then show ?thesis
    by (cases "(ev s, (Inl Raised_SyntaxError :: raised + int))" rule: agrees.cases) auto
qed

lemma python_eval_zero_division:
  assumes "python_eval ev" and "py_eval s = Some (Inl Raised_ZeroDivisionError)"
  shows "\<exists>d. ev s = Inl (ZeroDivisionError d)"
proof -
  from assms have "agrees (ev s) (Inl Raised_ZeroDivisionError)"
    by (simp add: python_eval_def)
  then show ?thesis
    by (cases "(ev s, (Inl Raised_ZeroDivisionError :: raised + int))" rule: agrees.cases) auto
qed

lemma python_eval_reference_eval: "python_eval reference_eval"
  by (auto simp: python_eval_def reference_eval_def split: sum.splits raised.splits)

lemma list_all_allowed: "list_all (\<lambda>c. c \<in> allowed_chars) s = (set s \<subseteq> allowed_chars)"
  by (auto simp: list_all_iff)

lemma calculator_str:
  "calculator ev (JStr s) =
     (if set s \<subseteq> allowed_chars
      then (case ev s of Inl e \<Rightarrow> Inr (ErrorDict (str_exc e)) | Inr v \<Rightarrow> Inr (ResultDict v))
      else Inr (ErrorDict ''Invalid expression''))"
  by (simp add: calculator_def calculator_try_def list_all_allowed split: sum.splits)

lemma calculator_returns: "\<exists>r. calculator ev v = Inr r"
  by (simp add: calculator_def split: sum.splits)

text \<open>
  Claim C3. \<open>calculator\<close> returns a value and never raises, for every argument and every
  behaviour of \<^verbatim>\<open>eval\<close>. On a string with a character outside the allowed set it returns
  the error \<^verbatim>\<open>Invalid expression\<close>, whatever \<^verbatim>\<open>eval\<close> would do; on a string that passes
  the filter it returns an error with the failure's description when the evaluation raises,
  and the value as result otherwise. With Python's \<^verbatim>\<open>eval\<close>, \<^verbatim>\<open>2+2\<close> gives the result 4,
  and \<^verbatim>\<open>10/0\<close> (division by zero) and \<^verbatim>\<open>2+\<close> (malformed syntax) give an error.
\<close>

theorem calculator_total:
  "(\<exists>r. calculator ev v = Inr r)
   \<and> (\<not> set s \<subseteq> allowed_chars \<longrightarrow>
        calculator ev (JStr s) = Inr (ErrorDict ''Invalid expression''))
   \<and> (set s \<subseteq> allowed_chars \<longrightarrow> ev s = Inl e \<longrightarrow>
        calculator ev (JStr s) = Inr (ErrorDict (str_exc e)))
   \<and> (set s \<subseteq> allowed_chars \<longrightarrow> ev s = Inr x \<longrightarrow>
        calculator ev (JStr s) = Inr (ResultDict x))
   \<and> (python_eval ev \<longrightarrow>
        calculator ev (JStr ''2+2'') = Inr (ResultDict (PInt 4))
        \<and> (\<exists>d. ev ''10/0'' = Inl (ZeroDivisionError d)
                \<and> calculator ev (JStr ''10/0'') = Inr (ErrorDict d))
        \<and> (\<exists>d. ev ''2+'' = Inl (SyntaxError d)
                \<and> calculator ev (JStr ''2+'') = Inr (ErrorDict d)))"
proof -
  have examples: "calculator ev (JStr ''2+2'') = Inr (ResultDict (PInt 4))
        \<and> (\<exists>d. ev ''10/0'' = Inl (ZeroDivisionError d)
                \<and> calculator ev (JStr ''10/0'') = Inr (ErrorDict d))
        \<and> (\<exists>d. ev ''2+'' = Inl (SyntaxError d)
                \<and> calculator ev (JStr ''2+'') = Inr (ErrorDict d))" if "python_eval ev"
  proof -
    from python_eval_value [OF that py_eval_2_plus_2]
    have four: "calculator ev (JStr ''2+2'') = Inr (ResultDict (PInt 4))"
      by (simp add: calculator_str allowed_chars_def)
    from python_eval_zero_division [OF that py_eval_10_div_0]
    obtain d where "ev ''10/0'' = Inl (ZeroDivisionError d)" by blast
    then have zero: "\<exists>d. ev ''10/0'' = Inl (ZeroDivisionError d)
        \<and> calculator ev (JStr ''10/0'') = Inr (ErrorDict d)"
      by (simp add: calculator_str allowed_chars_def)
    from python_eval_syntax_error [OF that py_eval_2_plus]
    obtain d' where "ev ''2+'' = Inl (SyntaxError d')" by blast
    then have malformed: "\<exists>d. ev ''2+'' = Inl (SyntaxError d)
        \<and> calculator ev (JStr ''2+'') = Inr (ErrorDict d)"
      by (simp add: calculator_str allowed_chars_def)
    from four zero malformed show ?thesis by simp
  qed
  show ?thesis
    using calculator_returns [of ev v] examples by (simp add: calculator_str)
qed

theorem calculator_total_witness:
  "python_eval reference_eval
   \<and> calculator reference_eval (JStr ''2+2'') = Inr (ResultDict (PInt 4))
   \<and> (\<exists>d. calculator reference_eval (JStr ''10/0'') = Inr (ErrorDict d))
   \<and> \<not> set ''import os'' \<subseteq> allowed_chars
   \<and> calculator reference_eval (JStr ''import os'') = Inr (ErrorDict ''Invalid expression'')
   \<and> (\<exists>r. calculator reference_eval (JInt 5) = Inr r)"
proof -
  have bad: "\<not> set ''import os'' \<subseteq> allowed_chars"
    by (simp add: allowed_chars_def)
  from calculator_total [of reference_eval "JInt 5" "''import os''"] bad
    python_eval_reference_eval
  show ?thesis by auto
qed

text \<open>
  Claim C10. The filter looks at the characters one by one: a string passes exactly when the
  set of its characters lies within the allowed set. So \<^verbatim>\<open>2**3\<close> and \<^verbatim>\<open>7//2\<close> pass and
  are evaluated: where \<^verbatim>\<open>eval\<close> gives 8 and 3 for them, as Python's does, the calculator
  returns the results 8 and 3. The empty string passes too, and the error returned for it is
  the text of the exception that its evaluation raises. The same holds of every \<^verbatim>\<open>eval\<close>
  that agrees with the reference semantics, where the exception is a \<^verbatim>\<open>SyntaxError\<close>.
\<close>

theorem calculator_character_filter:
  "all_allowed (JStr s) = Inr (set s \<subseteq> allowed_chars)
   \<and> set ''2**3'' \<subseteq> allowed_chars
   \<and> set ''7//2'' \<subseteq> allowed_chars
   \<and> set [] \<subseteq> allowed_chars
   \<and> (ev ''2**3'' = Inr (PInt 8) \<longrightarrow>
        calculator ev (JStr ''2**3'') = Inr (ResultDict (PInt 8)))
   \<and> (ev ''7//2'' = Inr (PInt 3) \<longrightarrow>
        calculator ev (JStr ''7//2'') = Inr (ResultDict (PInt 3)))
   \<and> (ev [] = Inl e \<longrightarrow>
        calculator ev (JStr []) = Inr (ErrorDict (str_exc e)))
   \<and> (python_eval ev \<longrightarrow>
        calculator ev (JStr ''2**3'') = Inr (ResultDict (PInt 8))
        \<and> calculator ev (JStr ''7//2'') = Inr (ResultDict (PInt 3))
        \<and> (\<exists>d. ev [] = Inl (SyntaxError d)
                \<and> calculator ev (JStr []) = Inr (ErrorDict d)))"
proof -
  have per_char: "all_allowed (JStr s) = Inr (set s \<subseteq> allowed_chars)"
    by (simp add: list_all_allowed)
  have pass: "set ''2**3'' \<subseteq> allowed_chars" "set ''7//2'' \<subseteq> allowed_chars"
    "set [] \<subseteq> allowed_chars"
    by (simp_all add: allowed_chars_def)
  have local: "(ev ''2**3'' = Inr (PInt 8) \<longrightarrow>
        calculator ev (JStr ''2**3'') = Inr (ResultDict (PInt 8)))
   \<and> (ev ''7//2'' = Inr (PInt 3) \<longrightarrow>
        calculator ev (JStr ''7//2'') = Inr (ResultDict (PInt 3)))
   \<and> (ev [] = Inl e \<longrightarrow>
        calculator ev (JStr []) = Inr (ErrorDict (str_exc e)))"
    using pass by (simp add: calculator_str)
  have reference: "calculator ev (JStr ''2**3'') = Inr (ResultDict (PInt 8))
        \<and> calculator ev (JStr ''7//2'') = Inr (ResultDict (PInt 3))
        \<and> (\<exists>d. ev [] = Inl (SyntaxError d)
                \<and> calculator ev (JStr []) = Inr (ErrorDict d))" if "python_eval ev"
  proof -
    from python_eval_syntax_error [OF that py_eval_empty]
    obtain d where "ev [] = Inl (SyntaxError d)" by blast
    with python_eval_value [OF that py_eval_2_pow_3]
      python_eval_value [OF that py_eval_7_floordiv_2] pass
    show ?thesis by (simp add: calculator_str)
  qed
  from per_char pass local reference show ?thesis by blast
qed

theorem calculator_character_filter_witness:
  "reference_eval ''2**3'' = Inr (PInt 8)
   \<and> calculator reference_eval (JStr ''2**3'') = Inr (ResultDict (PInt 8))
   \<and> reference_eval ''7//2'' = Inr (PInt 3)
   \<and> calculator reference_eval (JStr ''7//2'') = Inr (ResultDict (PInt 3))
   \<and> (\<exists>d. reference_eval [] = Inl (SyntaxError d)
           \<and> calculator reference_eval (JStr []) = Inr (ErrorDict d))
   \<and> python_eval reference_eval"
proof -
  have eight: "reference_eval ''2**3'' = Inr (PInt 8)"
    by (simp add: reference_eval_def py_eval_2_pow_3)
  have three: "reference_eval ''7//2'' = Inr (PInt 3)"
    by (simp add: reference_eval_def py_eval_7_floordiv_2)
  obtain d where empty: "reference_eval [] = Inl (SyntaxError d)"
    by (simp add: reference_eval_def py_eval_empty)
  from calculator_character_filter [of "[]" reference_eval "SyntaxError d"]
    eight three empty python_eval_reference_eval
  show ?thesis by simp
qed

section \<open>Direct tool execution\<close>

lemma call_calculator_missing:
  assumes "map_of parameters ''expression'' = None"
  shows "\<exists>e. call_with_kwargs ev now Fn_calculator parameters = Inl e"
  using assms by (simp split: list.splits)

text \<open>
  Claim C4. \<open>execute_tool\<close> fails with a 404 error when the name is no key of
  \<open>TOOL_FUNCTIONS\<close>, whatever the parameters, the clock and \<^verbatim>\<open>eval\<close> are (no tool is
  entered); for a known name it fails with a 400 error carrying the exception's text when
  the invocation raises, and otherwise returns the name with the tool's result. The
  invocation raises when \<open>calculator\<close> is called without \<open>expression\<close> and when
  \<open>get_current_datetime\<close> is called with any parameter; \<open>get_current_datetime\<close> without
  parameters and \<open>calculator\<close> with just an \<open>expression\<close> return.
\<close>

theorem execute_tool_outcomes:
  "(map_of TOOL_FUNCTIONS name = None \<longrightarrow>
      execute_tool ev now name parameters
        = Inl (HTTPException 404 (''Tool '' @ name @ '' not found'')))
   \<and> (map_of TOOL_FUNCTIONS name = Some f \<longrightarrow> call_with_kwargs ev now f parameters = Inl e \<longrightarrow>
      execute_tool ev now name parameters = Inl (HTTPException 400 (str_exc e)))
   \<and> (map_of TOOL_FUNCTIONS name = Some f \<longrightarrow> call_with_kwargs ev now f parameters = Inr r \<longrightarrow>
      execute_tool ev now name parameters = Inr \<lparr>tool = name, result = r\<rparr>)
   \<and> (map_of parameters ''expression'' = None \<longrightarrow>
      (\<exists>d. execute_tool ev now ''calculator'' parameters = Inl (HTTPException 400 d)))
   \<and> (parameters \<noteq> [] \<longrightarrow>
      (\<exists>d. execute_tool ev now ''get_current_datetime'' parameters = Inl (HTTPException 400 d)))
   \<and> execute_tool ev now ''get_current_datetime'' []
        = Inr \<lparr>tool = ''get_current_datetime'', result = DatetimeDict now\<rparr>
   \<and> (\<exists>r'. execute_tool ev now ''calculator'' [(''expression'', v)]
               = Inr \<lparr>tool = ''calculator'', result = r'\<rparr>
             \<and> calculator ev v = Inr r')"
proof -
  have missing: "\<exists>d. execute_tool ev now ''calculator'' parameters = Inl (HTTPException 400 d)"
    if "map_of parameters ''expression'' = None"
    using call_calculator_missing [OF that, of ev now]
    by (auto simp: execute_tool_def TOOL_FUNCTIONS_def)
  have unexpected:
    "\<exists>d. execute_tool ev now ''get_current_datetime'' parameters = Inl (HTTPException 400 d)"
    if "parameters \<noteq> []"
    using that by (cases parameters) (simp_all add: execute_tool_def TOOL_FUNCTIONS_def)
  have clock: "execute_tool ev now ''get_current_datetime'' []
      = Inr \<lparr>tool = ''get_current_datetime'', result = DatetimeDict now\<rparr>"
    by (simp add: execute_tool_def TOOL_FUNCTIONS_def get_current_datetime_def)
  have calc: "\<exists>r'. execute_tool ev now ''calculator'' [(''expression'', v)]
      = Inr \<lparr>tool = ''calculator'', result = r'\<rparr> \<and> calculator ev v = Inr r'"
    using calculator_returns [of ev v]
    by (auto simp: execute_tool_def TOOL_FUNCTIONS_def)
  have general: "(map_of TOOL_FUNCTIONS name = None \<longrightarrow>
      execute_tool ev now name parameters
        = Inl (HTTPException 404 (''Tool '' @ name @ '' not found'')))
   \<and> (map_of TOOL_FUNCTIONS name = Some f \<longrightarrow> call_with_kwargs ev now f parameters = Inl e \<longrightarrow>
      execute_tool ev now name parameters = Inl (HTTPException 400 (str_exc e)))
   \<and> (map_of TOOL_FUNCTIONS name = Some f \<longrightarrow> call_with_kwargs ev now f parameters = Inr r \<longrightarrow>
      execute_tool ev now name parameters = Inr \<lparr>tool = name, result = r\<rparr>)"
    by (simp add: execute_tool_def)
  from general missing unexpected clock calc show ?thesis by blast
qed

theorem execute_tool_outcomes_witness:
  "execute_tool reference_eval ''2026-11-04T12:00:00'' ''nonexistent'' []
     = Inl (HTTPException 404 ''Tool nonexistent not found'')
   \<and> (\<exists>d. execute_tool reference_eval ''2026-11-04T12:00:00'' ''calculator'' []
             = Inl (HTTPException 400 d))
   \<and> execute_tool reference_eval ''2026-11-04T12:00:00'' ''calculator''
       [(''expression'', JStr ''2+2'')]
     = Inr \<lparr>tool = ''calculator'', result = ResultDict (PInt 4)\<rparr>"
proof -
  have unknown: "map_of TOOL_FUNCTIONS ''nonexistent'' = None"
    by (simp add: TOOL_FUNCTIONS_def)
  have known: "map_of TOOL_FUNCTIONS ''calculator'' = Some Fn_calculator"
    by (simp add: TOOL_FUNCTIONS_def)
  have four: "call_with_kwargs reference_eval ''2026-11-04T12:00:00'' Fn_calculator
      [(''expression'', JStr ''2+2'')] = Inr (ResultDict (PInt 4))"
    by (simp add: calculator_str allowed_chars_def reference_eval_def py_eval_2_plus_2)
  have none: "map_of ([] :: (string \<times> json) list) ''expression'' = None"
    by simp
  from execute_tool_outcomes [of "''nonexistent''" reference_eval "''2026-11-04T12:00:00''" "[]"]
    unknown none
  have a: "execute_tool reference_eval ''2026-11-04T12:00:00'' ''nonexistent'' []
      = Inl (HTTPException 404 ''Tool nonexistent not found'')"
    and b: "\<exists>d. execute_tool reference_eval ''2026-11-04T12:00:00'' ''calculator'' []
      = Inl (HTTPException 400 d)"
    by simp_all
  from execute_tool_outcomes [of "''calculator''" reference_eval "''2026-11-04T12:00:00''"
      "[(''expression'', JStr ''2+2'')]" Fn_calculator _ "ResultDict (PInt 4)"] known four
  have c: "execute_tool reference_eval ''2026-11-04T12:00:00'' ''calculator''
      [(''expression'', JStr ''2+2'')]
      = Inr \<lparr>tool = ''calculator'', result = ResultDict (PInt 4)\<rparr>"
    by simp
  from a b c show ?thesis by simp
qed

end
